theory Spec2Isabelle
  imports Main "HOL-Library.Word" "HOL-Library.AList"
begin

unbundle bit_operations_syntax

section \<open>JavaScript values\<close>

text \<open>
  The component of \<^verbatim>\<open>src/src/App.tsx\<close> (lines 1 to 297; \<^verbatim>\<open>src/unnamed/part_000\<close> has the
  same handlers) reads backend replies with \<^verbatim>\<open>res.json()\<close> and uses the fields without
  a schema, so the values that flow through the state are arbitrary JavaScript values.
  Strings are lists of code units; a \<^typ>\<open>char\<close> stands for a code unit below 256.
  A number is the bit pattern of its IEEE 754 binary64 representation.
\<close>

datatype jsval =
    JUndefined
  | JNull
  | JBool bool
  | JNum "64 word"
  | JStr string
  | JArr "jsval list"
  | JObj "(string \<times> jsval) list"

datatype js_error =
    NetworkFailure
  | Thrown string
  | JsonSyntaxError
  | TypeError

text \<open>A number is falsy when it is \<open>+0\<close>, \<open>-0\<close> or a NaN.\<close>

definition num_falsy :: "64 word \<Rightarrow> bool" where
  "num_falsy w =
     (let m = w AND 0x7FFFFFFFFFFFFFFF in m = 0 \<or> 0x7FF0000000000000 < m)"

fun truthy :: "jsval \<Rightarrow> bool" where
  "truthy JUndefined = False"
| "truthy JNull = False"
| "truthy (JBool b) = b"
| "truthy (JNum w) = (\<not> num_falsy w)"
| "truthy (JStr s) = (s \<noteq> [])"
| "truthy (JArr xs) = True"
| "truthy (JObj fs) = True"

text \<open>
  \<^verbatim>\<open>data.key\<close> for a key that no prototype defines (\<^verbatim>\<open>reply\<close>, \<^verbatim>\<open>pdf_path\<close>): a TypeError on
  \<^verbatim>\<open>null\<close> and \<^verbatim>\<open>undefined\<close>, the own property of an object (the last binding wins where
  the JSON text repeats a key), \<^verbatim>\<open>undefined\<close> otherwise.
\<close>

fun get_prop :: "jsval \<Rightarrow> string \<Rightarrow> js_error + jsval" where
  "get_prop JUndefined k = Inl TypeError"
| "get_prop JNull k = Inl TypeError"
| "get_prop (JObj fs) k =
     (case map_of (rev fs) k of None \<Rightarrow> Inr JUndefined | Some v \<Rightarrow> Inr v)"
| "get_prop v k = Inr JUndefined"

text \<open>\<^verbatim>\<open>a || b\<close>\<close>

definition js_or :: "jsval \<Rightarrow> jsval \<Rightarrow> jsval" where
  "js_or a b = (if truthy a then a else b)"

text \<open>
  \<^verbatim>\<open>String.prototype.trim\<close>: the white space and line terminators among the code
  units below 256 are TAB, LF, VT, FF, CR, SPACE and NBSP.
\<close>

definition is_white_space :: "char \<Rightarrow> bool" where
  "is_white_space c = ((of_char c :: nat) \<in> {9, 10, 11, 12, 13, 32, 160})"

definition trim :: "string \<Rightarrow> string" where
  "trim s = rev (dropWhile is_white_space (rev (dropWhile is_white_space s)))"

text \<open>
  \<^verbatim>\<open>Number.prototype.toString\<close> on the integers that \<^verbatim>\<open>Date.now()\<close> and \<^verbatim>\<open>Date.now() + 1\<close>
  give (time values are integers of magnitude at most 8.64e15, below \<open>2^53\<close>, so the
  addition is exact and the rendering is plain decimal).
\<close>

definition digit_char :: "nat \<Rightarrow> char" where
  "digit_char d = char_of (48 + d)"

function string_of_nat :: "nat \<Rightarrow> string" where
  "string_of_nat n =
     (if n < 10 then [digit_char n] else string_of_nat (n div 10) @ [digit_char (n mod 10)])"
  by pat_completeness auto
termination
  by (relation "measure id") auto

declare string_of_nat.simps [simp del]

definition toString :: "int \<Rightarrow> string" where
  "toString i = (if i < 0 then CHR ''-'' # string_of_nat (nat (- i)) else string_of_nat (nat i))"

section \<open>Session identity\<close>

text \<open>
  \<^verbatim>\<open>localStorage\<close>: the stored items and, for the claims about writes, the log of the
  \<^verbatim>\<open>setItem\<close> calls made so far. \<^verbatim>\<open>getItem\<close> gives \<^verbatim>\<open>null\<close> (here \<open>None\<close>) for an absent key.
\<close>

record local_storage =
  items :: "(string \<times> string) list"
  setItem_calls :: "(string \<times> string) list"

definition getItem :: "local_storage \<Rightarrow> string \<Rightarrow> string option" where
  "getItem st k = map_of (items st) k"

definition setItem :: "string \<Rightarrow> string \<Rightarrow> local_storage \<Rightarrow> local_storage" where
  "setItem k v st =
     st\<lparr>items := AList.update k v (items st), setItem_calls := setItem_calls st @ [(k, v)]\<rparr>"

text \<open>
  \<^verbatim>\<open>getOrCreateSessionId\<close> (App.tsx lines 11 to 18). The first argument is the string that
  \<^verbatim>\<open>crypto.randomUUID()\<close> returns if it is called. \<^verbatim>\<open>!sessionId\<close> holds for \<^verbatim>\<open>null\<close> and for
  the empty string.
\<close>

definition getOrCreateSessionId :: "string \<Rightarrow> local_storage \<Rightarrow> string \<times> local_storage" where
  "getOrCreateSessionId randomUUID st =
     (case getItem st ''chat_session_id'' of
        None \<Rightarrow> (randomUUID, setItem ''chat_session_id'' randomUUID st)
      | Some sessionId \<Rightarrow>
          if sessionId = [] then (randomUUID, setItem ''chat_session_id'' randomUUID st)
          else (sessionId, st))"

section \<open>Component state\<close>

datatype mode = Pdf | Web | Llm

datatype role = User | Assistant

record msg =
  msg_id :: string
  msg_type :: role
  content :: jsval
  timestamp :: int
  source :: "mode option"

record js_file =
  file_name :: string
  file_type :: string

record toast_args =
  title :: string
  description :: "string option"
  variant :: "string option"

text \<open>
  The \<^verbatim>\<open>useState\<close> cells of \<^verbatim>\<open>App\<close> (lines 47 to 55) and the notices passed to \<^verbatim>\<open>toast\<close>,
  in call order.
\<close>

record app_state =
  message :: string
  isLoading :: bool
  messages :: "msg list"
  selectedFile :: "js_file option"
  pdfPath :: jsval
  messageType :: "mode option"
  sessionId :: string
  toasts :: "toast_args list"

definition initial_state :: "string \<Rightarrow> app_state" where
  "initial_state sid =
     \<lparr>message = [], isLoading = False, messages = [], selectedFile = None,
      pdfPath = JNull, messageType = None, sessionId = sid, toasts = []\<rparr>"

definition toast :: "toast_args \<Rightarrow> app_state \<Rightarrow> app_state" where
  "toast t s = s\<lparr>toasts := toasts s @ [t]\<rparr>"

text \<open>
  What \<^verbatim>\<open>fetch\<close> settles to: a rejection (network error), or a response with its status
  and its body as \<^verbatim>\<open>res.json()\<close> parses it (\<open>None\<close> when the body is not JSON and
  \<^verbatim>\<open>res.json()\<close> rejects).
\<close>

record response =
  status :: nat
  json_body :: "jsval option"

datatype fetch_result = NetworkError | Response response

definition res_ok :: "response \<Rightarrow> bool" where
  "res_ok r = (200 \<le> status r \<and> status r \<le> 299)"

text \<open>The two clock reads of one appended message: \<^verbatim>\<open>Date.now()\<close> and \<^verbatim>\<open>new Date()\<close>.\<close>

record tick =
  date_now :: int
  new_date :: int

section \<open>Attachment upload\<close>

text \<open>\<^verbatim>\<open>uploadPDF\<close> (lines 57 to 64), from the point where \<^verbatim>\<open>fetch\<close> settles.\<close>

definition uploadPDF :: "fetch_result \<Rightarrow> js_error + jsval" where
  "uploadPDF res =
     (case res of
        NetworkError \<Rightarrow> Inl NetworkFailure
      | Response r \<Rightarrow>
          if \<not> res_ok r then Inl (Thrown ''PDF upload failed'')
          else (case json_body r of
                  None \<Rightarrow> Inl JsonSyntaxError
                | Some data \<Rightarrow> get_prop data ''pdf_path''))"

text \<open>
  \<^verbatim>\<open>handleFileUpload\<close> (lines 66 to 82) up to its \<^verbatim>\<open>await\<close>: the new state and the file
  posted to \<^verbatim>\<open>/upload_pdf\<close>, if a request is issued.
\<close>

definition handleFileUpload_begin :: "js_file option \<Rightarrow> app_state \<Rightarrow> app_state \<times> js_file option" where
  "handleFileUpload_begin fo s =
     (case fo of
        Some f \<Rightarrow>
          if file_type f = ''application/pdf''
          then (s\<lparr>selectedFile := Some f, messageType := Some Pdf\<rparr>, Some f)
          else (toast \<lparr>title = ''Invalid file type'',
                       description = Some ''Please upload a PDF file'',
                       variant = Some ''destructive''\<rparr> s, None)
      | None \<Rightarrow>
          (toast \<lparr>title = ''Invalid file type'',
                  description = Some ''Please upload a PDF file'',
                  variant = Some ''destructive''\<rparr> s, None))"

text \<open>The rest of \<^verbatim>\<open>handleFileUpload\<close>, run when the upload request settles.\<close>

definition handleFileUpload_resume :: "js_file \<Rightarrow> fetch_result \<Rightarrow> app_state \<Rightarrow> app_state" where
  "handleFileUpload_resume f res s =
     (case uploadPDF res of
        Inr uploadedPath \<Rightarrow>
          toast \<lparr>title = ''PDF uploaded'',
                 description = Some (file_name f @ '' uploaded & ready.''),
                 variant = None\<rparr> (s\<lparr>pdfPath := uploadedPath\<rparr>)
      | Inl e \<Rightarrow>
          (toast \<lparr>title = ''PDF upload failed'', description = None,
                  variant = Some ''destructive''\<rparr> s)\<lparr>pdfPath := JNull\<rparr>)"

text \<open>One file selection with nothing else happening before its request settles.\<close>

definition handleFileUpload :: "js_file option \<Rightarrow> fetch_result \<Rightarrow> app_state \<Rightarrow> app_state" where
  "handleFileUpload fo res s =
     (case handleFileUpload_begin fo s of
        (s1, None) \<Rightarrow> s1
      | (s1, Some f) \<Rightarrow> handleFileUpload_resume f res s1)"

definition handleSuggestion :: "mode \<Rightarrow> app_state \<Rightarrow> app_state" where
  "handleSuggestion t s = (if t = Pdf then s else s\<lparr>messageType := Some t\<rparr>)"

section \<open>Chat dispatch\<close>

record chat_payload =
  session_id :: string
  User_message :: string
  pdf_path :: jsval

text \<open>
  A chat request in flight: the payload posted to \<^verbatim>\<open>/chat\<close> and the \<^verbatim>\<open>messageType\<close> that
  the continuation's closure holds (the value of the render in which \<^verbatim>\<open>sendMessage\<close> was
  called; \<^verbatim>\<open>setMessageType(undefined)\<close> does not change it).
\<close>

record chat_call =
  payload :: chat_payload
  closure_messageType :: "mode option"

text \<open>\<^verbatim>\<open>sendMessage\<close> (lines 89 to 132) up to its \<^verbatim>\<open>await fetch\<close>.\<close>

definition sendMessage_begin :: "tick \<Rightarrow> app_state \<Rightarrow> app_state \<times> chat_call option" where
  "sendMessage_begin t s =
     (if trim (message s) = [] \<and> \<not> truthy (pdfPath s) then (s, None)
      else
        (s\<lparr>isLoading := True,
           messages := messages s @
             [\<lparr>msg_id = toString (date_now t), msg_type = User, content = JStr (message s),
               timestamp = new_date t, source = messageType s\<rparr>],
           message := [],
           messageType := None\<rparr>,
         Some \<lparr>payload = \<lparr>session_id = sessionId s, User_message = message s,
                            pdf_path = pdfPath s\<rparr>,
               closure_messageType = messageType s\<rparr>))"

text \<open>
  The rest of \<^verbatim>\<open>sendMessage\<close>, run when the chat request settles. A rejected \<^verbatim>\<open>fetch\<close> or
  \<^verbatim>\<open>res.json()\<close> reaches the \<^verbatim>\<open>catch\<close>; the status is not looked at. The assistant
  message is built inside the updater given to \<^verbatim>\<open>setMessages\<close>, which React runs
  outside the handler's \<^verbatim>\<open>try\<close>: a TypeError from \<^verbatim>\<open>data.reply\<close> (a \<^verbatim>\<open>null\<close> body) is not
  caught there and is the outcome of the step.
\<close>

definition sendMessage_catch :: "app_state \<Rightarrow> app_state" where
  "sendMessage_catch s =
     (toast \<lparr>title = ''Failed to send message'', description = None,
             variant = Some ''destructive''\<rparr> s)\<lparr>isLoading := False\<rparr>"

definition sendMessage_resume ::
    "tick \<Rightarrow> chat_call \<Rightarrow> fetch_result \<Rightarrow> app_state \<Rightarrow> js_error + app_state" where
  "sendMessage_resume t c res s =
     (case res of
        NetworkError \<Rightarrow> Inr (sendMessage_catch s)
      | Response r \<Rightarrow>
          (case json_body r of
             None \<Rightarrow> Inr (sendMessage_catch s)
           | Some data \<Rightarrow>
               (case get_prop data ''reply'' of
                  Inl e \<Rightarrow> Inl e
                | Inr reply \<Rightarrow>
                    Inr (s\<lparr>messages := messages s @
                             [\<lparr>msg_id = toString (date_now t + 1), msg_type = Assistant,
                               content = js_or reply (JStr ''No response received.''),
                               timestamp = new_date t, source = closure_messageType c\<rparr>],
                           isLoading := False\<rparr>))))"

text \<open>One send with nothing else happening before its request settles.\<close>

definition sendMessage :: "tick \<Rightarrow> fetch_result \<Rightarrow> tick \<Rightarrow> app_state \<Rightarrow> js_error + app_state" where
  "sendMessage t res t' s =
     (case sendMessage_begin t s of
        (s1, None) \<Rightarrow> Inr s1
      | (s1, Some c) \<Rightarrow> sendMessage_resume t' c res s1)"

section \<open>Sessions\<close>

text \<open>
  The events that change the component's state: typing (\<^verbatim>\<open>onChange\<close>, line 272), a
  suggestion tile, a file selection and the settling of its upload, the Remove button
  (line 261), a send (button or Enter) and the settling of its chat request.
\<close>

datatype event =
    InputChange string
  | Suggestion mode
  | FileSelected "js_file option"
  | UploadSettled js_file fetch_result
  | RemoveFile
  | Send tick
  | ChatSettled tick chat_call fetch_result

fun step :: "event \<Rightarrow> app_state \<Rightarrow> js_error + app_state" where
  "step (InputChange v) s = Inr (s\<lparr>message := v\<rparr>)"
| "step (Suggestion m) s = Inr (handleSuggestion m s)"
| "step (FileSelected fo) s = Inr (fst (handleFileUpload_begin fo s))"
| "step (UploadSettled f res) s = Inr (handleFileUpload_resume f res s)"
| "step RemoveFile s = Inr (s\<lparr>selectedFile := None\<rparr>)"
| "step (Send t) s = Inr (fst (sendMessage_begin t s))"
| "step (ChatSettled t c res) s = sendMessage_resume t c res s"

fun run :: "event list \<Rightarrow> app_state \<Rightarrow> js_error + app_state" where
  "run [] s = Inr s"
| "run (e # es) s = (case step e s of Inl err \<Rightarrow> Inl err | Inr s' \<Rightarrow> run es s')"

text \<open>
  The numbers that an event renders as message ids: the \<^verbatim>\<open>Date.now()\<close> of a send that
  passes the guard, and one more than the \<^verbatim>\<open>Date.now()\<close> of a reply whose body parses.
\<close>

fun id_number :: "event \<Rightarrow> app_state \<Rightarrow> int list" where
  "id_number (Send t) s =
     (if trim (message s) = [] \<and> \<not> truthy (pdfPath s) then [] else [date_now t])"
| "id_number (ChatSettled t c NetworkError) s = []"
| "id_number (ChatSettled t c (Response r)) s =
     (case json_body r of None \<Rightarrow> [] | Some data \<Rightarrow> [date_now t + 1])"
| "id_number e s = []"

fun id_numbers :: "event list \<Rightarrow> app_state \<Rightarrow> int list" where
  "id_numbers [] s = []"
| "id_numbers (e # es) s =
     (case step e s of Inl err \<Rightarrow> [] | Inr s' \<Rightarrow> id_number e s @ id_numbers es s')"

section \<open>Decimal rendering is injective\<close>

lemma string_of_nat_not_Nil: "string_of_nat n \<noteq> []"
  by (subst string_of_nat.simps) simp

lemma of_char_digit_char: "d < 10 \<Longrightarrow> (of_char (digit_char d) :: nat) = 48 + d"
proof -
  assume d: "d < 10"
  have "(of_char (digit_char d) :: nat) = (48 + d) mod 256"
    by (simp only: digit_char_def of_char_of)
  also from d have "\<dots> = 48 + d" by (intro mod_less) arith
  finally show ?thesis .
qed

lemma digit_char_inj: "a < 10 \<Longrightarrow> b < 10 \<Longrightarrow> digit_char a = digit_char b \<Longrightarrow> a = b"
  using of_char_digit_char [of a] of_char_digit_char [of b] by (metis add_left_cancel)

lemma digit_char_not_minus: "d < 10 \<Longrightarrow> digit_char d \<noteq> CHR ''-''"
proof
  assume d: "d < 10" and e: "digit_char d = CHR ''-''"
  have "(of_char (CHR ''-'') :: nat) = 45" by simp
  with e of_char_digit_char [OF d] show False by arith
qed

lemma string_of_nat_digits: "CHR ''-'' \<notin> set (string_of_nat n)"
proof (induction n rule: string_of_nat.induct)
  case (1 n)
  show ?case
  proof (cases "n < 10")
    case True
    then show ?thesis
      using digit_char_not_minus [of n] by (subst string_of_nat.simps) auto
  next
    case False
    have "n mod 10 < 10" by simp
    then have "digit_char (n mod 10) \<noteq> CHR ''-''" by (rule digit_char_not_minus)
    with False 1 show ?thesis
      by (subst string_of_nat.simps) auto
  qed
qed

lemma string_of_nat_inj: "string_of_nat n = string_of_nat m \<Longrightarrow> n = m"
proof (induction n arbitrary: m rule: string_of_nat.induct)
  case (1 n)
  show ?case
  proof (cases "n < 10")
    case n: True
    show ?thesis
    proof (cases "m < 10")
      case True
      with n 1(2) show ?thesis
        by (simp add: string_of_nat.simps [of n] string_of_nat.simps [of m] digit_char_inj)
    next
      case False
      with n 1(2) string_of_nat_not_Nil [of "m div 10"] show ?thesis
        by (simp add: string_of_nat.simps [of n] string_of_nat.simps [of m])
    qed
  next
    case n: False
    show ?thesis
    proof (cases "m < 10")
      case True
      with n 1(2) string_of_nat_not_Nil [of "n div 10"] show ?thesis
        by (simp add: string_of_nat.simps [of n] string_of_nat.simps [of m])
    next
      case False
      with n 1(2) have e: "string_of_nat (n div 10) = string_of_nat (m div 10)"
        and d: "digit_char (n mod 10) = digit_char (m mod 10)"
        by (simp_all add: string_of_nat.simps [of n] string_of_nat.simps [of m])
      from 1(1) [OF n e] have "n div 10 = m div 10" .
      moreover from d have "n mod 10 = m mod 10"
        by (intro digit_char_inj) simp_all
      ultimately show ?thesis
        by (metis div_mult_mod_eq)
    qed
  qed
qed

lemma toString_inj: "toString i = toString j \<Longrightarrow> i = j"
proof -
  assume e: "toString i = toString j"
  have hd_digit: "\<And>n. hd (string_of_nat n) \<noteq> CHR ''-''"
    using string_of_nat_digits string_of_nat_not_Nil by (metis hd_in_set)
  show "i = j"
  proof (cases "i < 0")
    case i: True
    show ?thesis
    proof (cases "j < 0")
      case True
      with i e have "string_of_nat (nat (- i)) = string_of_nat (nat (- j))"
        by (simp add: toString_def)
      then have "nat (- i) = nat (- j)" by (rule string_of_nat_inj)
      with i True show ?thesis by simp
    next
      case False
      with i e have "CHR ''-'' # string_of_nat (nat (- i)) = string_of_nat (nat j)"
        by (simp add: toString_def)
      then have "hd (string_of_nat (nat j)) = CHR ''-''" by (metis list.sel(1))
      with hd_digit show ?thesis by blast
    qed
  next
    case i: False
    show ?thesis
    proof (cases "j < 0")
      case True
      with i e have "string_of_nat (nat i) = CHR ''-'' # string_of_nat (nat (- j))"
        by (simp add: toString_def)
      then have "hd (string_of_nat (nat i)) = CHR ''-''" by (metis list.sel(1))
      with hd_digit show ?thesis by blast
    next
      case False
      with i e have "string_of_nat (nat i) = string_of_nat (nat j)"
        by (simp add: toString_def)
      then have "nat i = nat j" by (rule string_of_nat_inj)
      with i False show ?thesis by simp
    qed
  qed
qed

lemma toString_eq_iff: "toString i = toString j \<longleftrightarrow> i = j"
  using toString_inj by blast

section \<open>Claims about the session identity\<close>

text \<open>
  C4: \<^verbatim>\<open>getOrCreateSessionId\<close> is idempotent within one storage scope. With a non-empty
  identifier from \<^verbatim>\<open>crypto.randomUUID()\<close>: on the first call (no item under
  \<^verbatim>\<open>chat_session_id\<close>) it returns the generated identifier and makes one \<^verbatim>\<open>setItem\<close> call
  that stores it under \<^verbatim>\<open>chat_session_id\<close>; after any call, the stored item is the returned
  string, and a subsequent call returns the identical string and leaves the storage,
  its log of writes included, as it was.
\<close>

theorem session_id_idempotent:
  assumes "randomUUID \<noteq> []"
  shows "(getItem st ''chat_session_id'' = None \<longrightarrow>
            getOrCreateSessionId randomUUID st =
              (randomUUID, setItem ''chat_session_id'' randomUUID st) \<and>
            setItem_calls (setItem ''chat_session_id'' randomUUID st) =
              setItem_calls st @ [(''chat_session_id'', randomUUID)]) \<and>
         (case getOrCreateSessionId randomUUID st of (sid, st1) \<Rightarrow>
            getItem st1 ''chat_session_id'' = Some sid \<and>
            getOrCreateSessionId randomUUID' st1 = (sid, st1))"
  using assms
  by (auto simp: getOrCreateSessionId_def getItem_def setItem_def update_conv'
      split: option.splits)

theorem session_id_idempotent_witness:
  "getOrCreateSessionId ''3b241101-e2bb-4255-8caf-4136c566a962'' \<lparr>items = [], setItem_calls = []\<rparr> =
     (''3b241101-e2bb-4255-8caf-4136c566a962'',
      \<lparr>items = [(''chat_session_id'', ''3b241101-e2bb-4255-8caf-4136c566a962'')],
       setItem_calls = [(''chat_session_id'', ''3b241101-e2bb-4255-8caf-4136c566a962'')]\<rparr>) \<and>
   getOrCreateSessionId ''9f0c6a52-0d0e-4b7e-9a57-6f1c2d3e4f50''
     \<lparr>items = [(''chat_session_id'', ''3b241101-e2bb-4255-8caf-4136c566a962'')],
      setItem_calls = [(''chat_session_id'', ''3b241101-e2bb-4255-8caf-4136c566a962'')]\<rparr> =
     (''3b241101-e2bb-4255-8caf-4136c566a962'',
      \<lparr>items = [(''chat_session_id'', ''3b241101-e2bb-4255-8caf-4136c566a962'')],
       setItem_calls = [(''chat_session_id'', ''3b241101-e2bb-4255-8caf-4136c566a962'')]\<rparr>)"
  using session_id_idempotent [of "''3b241101-e2bb-4255-8caf-4136c566a962''"
      "\<lparr>items = [], setItem_calls = []\<rparr>" "''9f0c6a52-0d0e-4b7e-9a57-6f1c2d3e4f50''"]
  by (simp add: getItem_def setItem_def getOrCreateSessionId_def)

section \<open>Claims about the chat dispatcher\<close>

text \<open>
  C3: when the text is blank after trimming and no attachment reference is set,
  \<^verbatim>\<open>sendMessage\<close> is a no-op: the state (conversation store and notices included) is
  unchanged, no chat request is issued, and no error is raised.
\<close>

theorem blank_send_is_noop:
  assumes "trim (message s) = []" and "\<not> truthy (pdfPath s)"
  shows "sendMessage_begin t s = (s, None) \<and> sendMessage t res t' s = Inr s \<and>
         step (Send t) s = Inr s"
  using assms by (simp add: sendMessage_begin_def sendMessage_def)

theorem blank_send_is_noop_witness:
  "sendMessage_begin \<lparr>date_now = 1700000000000, new_date = 1700000000000\<rparr>
       ((initial_state ''s1'')\<lparr>message := ''   ''\<rparr>) =
     ((initial_state ''s1'')\<lparr>message := ''   ''\<rparr>, None) \<and>
   sendMessage \<lparr>date_now = 1700000000000, new_date = 1700000000000\<rparr> NetworkError
       \<lparr>date_now = 1700000000500, new_date = 1700000000500\<rparr>
       ((initial_state ''s1'')\<lparr>message := ''   ''\<rparr>) =
     Inr ((initial_state ''s1'')\<lparr>message := ''   ''\<rparr>)"
proof -
  have h1: "trim (message ((initial_state ''s1'')\<lparr>message := ''   ''\<rparr>)) = []"
    by (simp add: trim_def is_white_space_def initial_state_def)
  have h2: "\<not> truthy (pdfPath ((initial_state ''s1'')\<lparr>message := ''   ''\<rparr>))"
    by (simp add: initial_state_def)
  from blank_send_is_noop [OF h1 h2] show ?thesis by blast
qed

subsection \<open>What one send does\<close>

lemma trim_hello: "trim ''hello'' = ''hello''"
  by (simp add: trim_def is_white_space_def)

lemma trim_spaces: "trim ''   '' = []"
  by (simp add: trim_def is_white_space_def)

lemma sendMessage_begin_sends:
  assumes "trim (message s) \<noteq> [] \<or> truthy (pdfPath s)"
  shows "sendMessage_begin t s =
           (s\<lparr>isLoading := True,
              messages := messages s @
                [\<lparr>msg_id = toString (date_now t), msg_type = User, content = JStr (message s),
                  timestamp = new_date t, source = messageType s\<rparr>],
              message := [],
              messageType := None\<rparr>,
            Some \<lparr>payload = \<lparr>session_id = sessionId s, User_message = message s,
                              pdf_path = pdfPath s\<rparr>,
                  closure_messageType = messageType s\<rparr>)"
  using assms by (auto simp: sendMessage_begin_def)

lemma sendMessage_resume_pdfPath:
  "sendMessage_resume t c res s = Inr s' \<Longrightarrow> pdfPath s' = pdfPath s"
  by (auto simp: sendMessage_resume_def sendMessage_catch_def toast_def
      split: fetch_result.splits option.splits sum.splits)

lemma sendMessage_resume_message:
  "sendMessage_resume t c res s = Inr s' \<Longrightarrow> message s' = message s \<and> messageType s' = messageType s"
  by (auto simp: sendMessage_resume_def sendMessage_catch_def toast_def
      split: fetch_result.splits option.splits sum.splits)

lemma sendMessage_network_error:
  assumes "trim (message s) \<noteq> [] \<or> truthy (pdfPath s)"
  shows "sendMessage t NetworkError t' s =
           Inr (s\<lparr>isLoading := False,
                  messages := messages s @
                    [\<lparr>msg_id = toString (date_now t), msg_type = User,
                      content = JStr (message s), timestamp = new_date t,
                      source = messageType s\<rparr>],
                  message := [],
                  messageType := None,
                  toasts := toasts s @
                    [\<lparr>title = ''Failed to send message'', description = None,
                      variant = Some ''destructive''\<rparr>]\<rparr>)"
  by (simp add: sendMessage_def sendMessage_begin_sends [OF assms] sendMessage_resume_def
      sendMessage_catch_def toast_def)

text \<open>
  C2: a send that passes the guard (text not blank after trimming, or an attachment
  reference set) and whose chat request succeeds (a 2xx response whose body is a JSON
  object) makes the conversation store two messages longer: first the user message with
  the input text and the mode, then an assistant message. The second part states the
  same for a send whose request settles later, in whatever state the component then is:
  the part before the request appends the user message, the part after it appends one
  assistant message at the end of the store as it then is.
\<close>

theorem successful_send_appends_user_then_assistant:
  assumes guard: "trim (message s) \<noteq> [] \<or> truthy (pdfPath s)"
    and ok: "res_ok r"
    and body: "json_body r = Some (JObj fs)"
  shows "(\<exists>s' a. sendMessage t (Response r) t' s = Inr s' \<and>
            messages s' = messages s @
              [\<lparr>msg_id = toString (date_now t), msg_type = User, content = JStr (message s),
                timestamp = new_date t, source = messageType s\<rparr>, a] \<and>
            msg_type a = Assistant \<and>
            length (messages s') = length (messages s) + 2) \<and>
         (\<exists>c. sendMessage_begin t s =
                (fst (sendMessage_begin t s), Some c) \<and>
              messages (fst (sendMessage_begin t s)) = messages s @
                [\<lparr>msg_id = toString (date_now t), msg_type = User, content = JStr (message s),
                  timestamp = new_date t, source = messageType s\<rparr>] \<and>
              (\<forall>s2. \<exists>s3 a. sendMessage_resume t' c (Response r) s2 = Inr s3 \<and>
                 messages s3 = messages s2 @ [a] \<and> msg_type a = Assistant))"
proof -
  obtain reply where reply: "get_prop (JObj fs) ''reply'' = Inr reply"
    by (cases "map_of (rev fs) ''reply''") simp_all
  from guard have g: "\<not> (trim (message s) = [] \<and> \<not> truthy (pdfPath s))" by blast
  have one: "\<exists>s' a. sendMessage t (Response r) t' s = Inr s' \<and>
            messages s' = messages s @
              [\<lparr>msg_id = toString (date_now t), msg_type = User, content = JStr (message s),
                timestamp = new_date t, source = messageType s\<rparr>, a] \<and>
            msg_type a = Assistant \<and>
            length (messages s') = length (messages s) + 2"
    using g body reply
    by (simp add: sendMessage_def sendMessage_begin_def sendMessage_resume_def)
  have two: "\<exists>c. sendMessage_begin t s =
                (fst (sendMessage_begin t s), Some c) \<and>
              messages (fst (sendMessage_begin t s)) = messages s @
                [\<lparr>msg_id = toString (date_now t), msg_type = User, content = JStr (message s),
                  timestamp = new_date t, source = messageType s\<rparr>] \<and>
              (\<forall>s2. \<exists>s3 a. sendMessage_resume t' c (Response r) s2 = Inr s3 \<and>
                 messages s3 = messages s2 @ [a] \<and> msg_type a = Assistant)"
    using g body reply
    by (simp add: sendMessage_begin_def sendMessage_resume_def)
  from one two show ?thesis by blast
qed

theorem successful_send_appends_user_then_assistant_witness:
  "trim (message ((initial_state ''s1'')\<lparr>message := ''hello''\<rparr>)) \<noteq> [] \<and>
   res_ok \<lparr>status = 200, json_body = Some (JObj [(''reply'', JStr ''Hi there'')])\<rparr> \<and>
   (\<exists>s' a. sendMessage \<lparr>date_now = 1700000000000, new_date = 1700000000000\<rparr>
       (Response \<lparr>status = 200, json_body = Some (JObj [(''reply'', JStr ''Hi there'')])\<rparr>)
       \<lparr>date_now = 1700000000850, new_date = 1700000000850\<rparr>
       ((initial_state ''s1'')\<lparr>message := ''hello''\<rparr>) = Inr s' \<and>
     messages s' =
       [\<lparr>msg_id = toString 1700000000000, msg_type = User, content = JStr ''hello'',
         timestamp = 1700000000000, source = None\<rparr>, a] \<and>
     msg_type a = Assistant)"
proof -
  have h0: "trim (message ((initial_state ''s1'')\<lparr>message := ''hello''\<rparr>)) \<noteq> []"
    by (simp add: trim_hello)
  then have h1: "trim (message ((initial_state ''s1'')\<lparr>message := ''hello''\<rparr>)) \<noteq> [] \<or>
      truthy (pdfPath ((initial_state ''s1'')\<lparr>message := ''hello''\<rparr>))" ..
  have h2: "res_ok \<lparr>status = 200, json_body = Some (JObj [(''reply'', JStr ''Hi there'')])\<rparr>"
    by (simp add: res_ok_def)
  have h3: "json_body \<lparr>status = 200, json_body = Some (JObj [(''reply'', JStr ''Hi there'')])\<rparr> =
      Some (JObj [(''reply'', JStr ''Hi there'')])"
    by simp
  have "\<exists>s' a. sendMessage \<lparr>date_now = 1700000000000, new_date = 1700000000000\<rparr>
       (Response \<lparr>status = 200, json_body = Some (JObj [(''reply'', JStr ''Hi there'')])\<rparr>)
       \<lparr>date_now = 1700000000850, new_date = 1700000000850\<rparr>
       ((initial_state ''s1'')\<lparr>message := ''hello''\<rparr>) = Inr s' \<and>
     messages s' = messages ((initial_state ''s1'')\<lparr>message := ''hello''\<rparr>) @
       [\<lparr>msg_id = toString (date_now \<lparr>date_now = 1700000000000, new_date = 1700000000000\<rparr>),
         msg_type = User,
         content = JStr (message ((initial_state ''s1'')\<lparr>message := ''hello''\<rparr>)),
         timestamp = new_date \<lparr>date_now = 1700000000000, new_date = 1700000000000\<rparr>,
         source = messageType ((initial_state ''s1'')\<lparr>message := ''hello''\<rparr>)\<rparr>, a] \<and>
     msg_type a = Assistant \<and>
     length (messages s') =
       length (messages ((initial_state ''s1'')\<lparr>message := ''hello''\<rparr>)) + 2"
    using successful_send_appends_user_then_assistant [OF h1 h2 h3] by blast
  then have "\<exists>s' a. sendMessage \<lparr>date_now = 1700000000000, new_date = 1700000000000\<rparr>
       (Response \<lparr>status = 200, json_body = Some (JObj [(''reply'', JStr ''Hi there'')])\<rparr>)
       \<lparr>date_now = 1700000000850, new_date = 1700000000850\<rparr>
       ((initial_state ''s1'')\<lparr>message := ''hello''\<rparr>) = Inr s' \<and>
     messages s' =
       [\<lparr>msg_id = toString 1700000000000, msg_type = User, content = JStr ''hello'',
         timestamp = 1700000000000, source = None\<rparr>, a] \<and>
     msg_type a = Assistant"
    by (simp add: initial_state_def) blast
  with h0 h2 show ?thesis by blast
qed

text \<open>
  C5: when the chat request settles with a body that has no \<^verbatim>\<open>reply\<close> field, or an empty
  one, the assistant message that the send appends has the content
  \<^verbatim>\<open>No response received.\<close> (and the mode that was set when the send started).
\<close>

theorem missing_reply_gives_placeholder:
  assumes guard: "trim (message s) \<noteq> [] \<or> truthy (pdfPath s)"
    and body: "json_body r = Some data"
    and reply: "get_prop data ''reply'' = Inr JUndefined \<or> get_prop data ''reply'' = Inr (JStr [])"
  shows "\<exists>s'. sendMessage t (Response r) t' s = Inr s' \<and>
           last (messages s') =
             \<lparr>msg_id = toString (date_now t' + 1), msg_type = Assistant,
              content = JStr ''No response received.'', timestamp = new_date t',
              source = messageType s\<rparr>"
proof -
  note bg = sendMessage_begin_sends [OF guard, of t]
  from reply show ?thesis
  proof
    assume "get_prop data ''reply'' = Inr JUndefined"
    with body show ?thesis
      by (simp add: sendMessage_def bg sendMessage_resume_def js_or_def)
  next
    assume "get_prop data ''reply'' = Inr (JStr [])"
    with body show ?thesis
      by (simp add: sendMessage_def bg sendMessage_resume_def js_or_def)
  qed
qed

theorem missing_reply_gives_placeholder_witness:
  "trim (message ((initial_state ''s1'')\<lparr>message := ''hello''\<rparr>)) \<noteq> [] \<and>
   get_prop (JObj []) ''reply'' = Inr JUndefined \<and>
   (\<exists>s'. sendMessage \<lparr>date_now = 1700000000000, new_date = 1700000000000\<rparr>
       (Response \<lparr>status = 200, json_body = Some (JObj [])\<rparr>)
       \<lparr>date_now = 1700000000850, new_date = 1700000000850\<rparr>
       ((initial_state ''s1'')\<lparr>message := ''hello''\<rparr>) = Inr s' \<and>
     last (messages s') =
       \<lparr>msg_id = toString 1700000000851, msg_type = Assistant,
        content = JStr ''No response received.'', timestamp = 1700000000850,
        source = None\<rparr>)"
proof -
  have h0: "trim (message ((initial_state ''s1'')\<lparr>message := ''hello''\<rparr>)) \<noteq> []"
    by (simp add: trim_hello)
  then have h1: "trim (message ((initial_state ''s1'')\<lparr>message := ''hello''\<rparr>)) \<noteq> [] \<or>
      truthy (pdfPath ((initial_state ''s1'')\<lparr>message := ''hello''\<rparr>))" ..
  have h2: "json_body \<lparr>status = 200, json_body = Some (JObj [])\<rparr> = Some (JObj [])"
    by simp
  have h3: "get_prop (JObj []) ''reply'' = Inr JUndefined" by simp
  then have h3': "get_prop (JObj []) ''reply'' = Inr JUndefined \<or>
      get_prop (JObj []) ''reply'' = Inr (JStr [])" ..
  have "\<exists>s'. sendMessage \<lparr>date_now = 1700000000000, new_date = 1700000000000\<rparr>
       (Response \<lparr>status = 200, json_body = Some (JObj [])\<rparr>)
       \<lparr>date_now = 1700000000850, new_date = 1700000000850\<rparr>
       ((initial_state ''s1'')\<lparr>message := ''hello''\<rparr>) = Inr s' \<and>
     last (messages s') =
       \<lparr>msg_id = toString 1700000000851, msg_type = Assistant,
        content = JStr ''No response received.'', timestamp = 1700000000850,
        source = None\<rparr>"
    using missing_reply_gives_placeholder [OF h1 h2 h3',
        of "\<lparr>date_now = 1700000000000, new_date = 1700000000000\<rparr>"
           "\<lparr>date_now = 1700000000850, new_date = 1700000000850\<rparr>"]
    by (simp add: initial_state_def)
  with h0 h3 show ?thesis by blast
qed

text \<open>
  C8: a send that passes the guard clears the input text and resets the response mode,
  and leaves the attachment reference as it was: its own request carries it, it is
  still there when the request has settled, and the request of a follow-up send with
  any new text carries the same \<^verbatim>\<open>pdf_path\<close>.
\<close>

theorem send_clears_text_and_mode_keeps_attachment:
  assumes guard: "trim (message s) \<noteq> [] \<or> truthy (pdfPath s)"
  shows "message (fst (sendMessage_begin t s)) = [] \<and>
         messageType (fst (sendMessage_begin t s)) = None \<and>
         pdfPath (fst (sendMessage_begin t s)) = pdfPath s \<and>
         map_option (\<lambda>c. pdf_path (payload c)) (snd (sendMessage_begin t s)) = Some (pdfPath s) \<and>
         (\<forall>s'. sendMessage t res t' s = Inr s' \<longrightarrow>
            message s' = [] \<and> messageType s' = None \<and> pdfPath s' = pdfPath s \<and>
            (\<forall>c. snd (sendMessage_begin t2 (s'\<lparr>message := v\<rparr>)) = Some c \<longrightarrow>
               pdf_path (payload c) = pdfPath s))"
proof -
  from guard have g: "\<not> (trim (message s) = [] \<and> \<not> truthy (pdfPath s))" by blast
  have b: "message (fst (sendMessage_begin t s)) = [] \<and>
         messageType (fst (sendMessage_begin t s)) = None \<and>
         pdfPath (fst (sendMessage_begin t s)) = pdfPath s \<and>
         map_option (\<lambda>c. pdf_path (payload c)) (snd (sendMessage_begin t s)) = Some (pdfPath s)"
    using g by (simp add: sendMessage_begin_def)
  have a: "message s' = [] \<and> messageType s' = None \<and> pdfPath s' = pdfPath s \<and>
            (\<forall>c. snd (sendMessage_begin t2 (s'\<lparr>message := v\<rparr>)) = Some c \<longrightarrow>
               pdf_path (payload c) = pdfPath s)"
    if run: "sendMessage t res t' s = Inr s'" for s'
  proof -
    obtain c where bg: "sendMessage_begin t s = (fst (sendMessage_begin t s), Some c)"
      using g by (simp add: sendMessage_begin_def)
    with run have r: "sendMessage_resume t' c res (fst (sendMessage_begin t s)) = Inr s'"
      by (simp add: sendMessage_def split: prod.splits)
    from sendMessage_resume_pdfPath [OF r] sendMessage_resume_message [OF r] b
    have f: "message s' = [] \<and> messageType s' = None \<and> pdfPath s' = pdfPath s" by simp
    then have "\<forall>c. snd (sendMessage_begin t2 (s'\<lparr>message := v\<rparr>)) = Some c \<longrightarrow>
               pdf_path (payload c) = pdfPath s"
      by (auto simp: sendMessage_begin_def split: if_splits)
    with f show ?thesis by blast
  qed
  from a b show ?thesis by blast
qed

theorem send_clears_text_and_mode_keeps_attachment_witness:
  "truthy (pdfPath ((initial_state ''s1'')\<lparr>message := ''What is the summary?'',
          pdfPath := JStr ''/tmp/abc123.pdf'', messageType := Some Pdf\<rparr>)) \<and>
   sendMessage \<lparr>date_now = 1700000000000, new_date = 1700000000000\<rparr>
       (Response \<lparr>status = 200, json_body = Some (JObj [(''reply'', JStr ''A summary.'')])\<rparr>)
       \<lparr>date_now = 1700000000850, new_date = 1700000000850\<rparr>
       ((initial_state ''s1'')\<lparr>message := ''What is the summary?'',
          pdfPath := JStr ''/tmp/abc123.pdf'', messageType := Some Pdf\<rparr>) =
     Inr \<lparr>message = [], isLoading = False,
          messages =
            [\<lparr>msg_id = toString 1700000000000, msg_type = User,
              content = JStr ''What is the summary?'', timestamp = 1700000000000,
              source = Some Pdf\<rparr>,
             \<lparr>msg_id = toString 1700000000851, msg_type = Assistant,
              content = JStr ''A summary.'', timestamp = 1700000000850,
              source = Some Pdf\<rparr>],
          selectedFile = None, pdfPath = JStr ''/tmp/abc123.pdf'', messageType = None,
          sessionId = ''s1'', toasts = []\<rparr> \<and>
   snd (sendMessage_begin \<lparr>date_now = 1700000009000, new_date = 1700000009000\<rparr>
       (\<lparr>message = [], isLoading = False,
          messages =
            [\<lparr>msg_id = toString 1700000000000, msg_type = User,
              content = JStr ''What is the summary?'', timestamp = 1700000000000,
              source = Some Pdf\<rparr>,
             \<lparr>msg_id = toString 1700000000851, msg_type = Assistant,
              content = JStr ''A summary.'', timestamp = 1700000000850,
              source = Some Pdf\<rparr>],
          selectedFile = None, pdfPath = JStr ''/tmp/abc123.pdf'', messageType = None,
          sessionId = ''s1'', toasts = []\<rparr>\<lparr>message := ''And the conclusion?''\<rparr>)) =
     Some \<lparr>payload = \<lparr>session_id = ''s1'', User_message = ''And the conclusion?'',
                        pdf_path = JStr ''/tmp/abc123.pdf''\<rparr>,
            closure_messageType = None\<rparr> \<and>
   pdf_path (payload \<lparr>payload = \<lparr>session_id = ''s1'', User_message = ''And the conclusion?'',
                        pdf_path = JStr ''/tmp/abc123.pdf''\<rparr>,
            closure_messageType = None\<rparr>) =
     pdfPath ((initial_state ''s1'')\<lparr>message := ''What is the summary?'',
          pdfPath := JStr ''/tmp/abc123.pdf'', messageType := Some Pdf\<rparr>)"
proof -
  have h0: "truthy (pdfPath ((initial_state ''s1'')\<lparr>message := ''What is the summary?'',
          pdfPath := JStr ''/tmp/abc123.pdf'', messageType := Some Pdf\<rparr>))"
    by simp
  then have h: "trim (message ((initial_state ''s1'')\<lparr>message := ''What is the summary?'',
          pdfPath := JStr ''/tmp/abc123.pdf'', messageType := Some Pdf\<rparr>)) \<noteq> [] \<or>
    truthy (pdfPath ((initial_state ''s1'')\<lparr>message := ''What is the summary?'',
          pdfPath := JStr ''/tmp/abc123.pdf'', messageType := Some Pdf\<rparr>))" ..
  have r: "sendMessage \<lparr>date_now = 1700000000000, new_date = 1700000000000\<rparr>
       (Response \<lparr>status = 200, json_body = Some (JObj [(''reply'', JStr ''A summary.'')])\<rparr>)
       \<lparr>date_now = 1700000000850, new_date = 1700000000850\<rparr>
       ((initial_state ''s1'')\<lparr>message := ''What is the summary?'',
          pdfPath := JStr ''/tmp/abc123.pdf'', messageType := Some Pdf\<rparr>) =
     Inr \<lparr>message = [], isLoading = False,
          messages =
            [\<lparr>msg_id = toString 1700000000000, msg_type = User,
              content = JStr ''What is the summary?'', timestamp = 1700000000000,
              source = Some Pdf\<rparr>,
             \<lparr>msg_id = toString 1700000000851, msg_type = Assistant,
              content = JStr ''A summary.'', timestamp = 1700000000850,
              source = Some Pdf\<rparr>],
          selectedFile = None, pdfPath = JStr ''/tmp/abc123.pdf'', messageType = None,
          sessionId = ''s1'', toasts = []\<rparr>"
    by (simp add: sendMessage_def sendMessage_begin_def sendMessage_resume_def js_or_def
        initial_state_def)
  have f: "snd (sendMessage_begin \<lparr>date_now = 1700000009000, new_date = 1700000009000\<rparr>
       (\<lparr>message = [], isLoading = False,
          messages =
            [\<lparr>msg_id = toString 1700000000000, msg_type = User,
              content = JStr ''What is the summary?'', timestamp = 1700000000000,
              source = Some Pdf\<rparr>,
             \<lparr>msg_id = toString 1700000000851, msg_type = Assistant,
              content = JStr ''A summary.'', timestamp = 1700000000850,
              source = Some Pdf\<rparr>],
          selectedFile = None, pdfPath = JStr ''/tmp/abc123.pdf'', messageType = None,
          sessionId = ''s1'', toasts = []\<rparr>\<lparr>message := ''And the conclusion?''\<rparr>)) =
     Some \<lparr>payload = \<lparr>session_id = ''s1'', User_message = ''And the conclusion?'',
                        pdf_path = JStr ''/tmp/abc123.pdf''\<rparr>,
            closure_messageType = None\<rparr>"
    by (simp add: sendMessage_begin_def trim_def is_white_space_def)
  from send_clears_text_and_mode_keeps_attachment [OF h,
      of "\<lparr>date_now = 1700000000000, new_date = 1700000000000\<rparr>"
         "(Response \<lparr>status = 200, json_body = Some (JObj [(''reply'', JStr ''A summary.'')])\<rparr>)"
         "\<lparr>date_now = 1700000000850, new_date = 1700000000850\<rparr>"
         "\<lparr>date_now = 1700000009000, new_date = 1700000009000\<rparr>"
         "''And the conclusion?''"] r f
  have "pdf_path (payload \<lparr>payload = \<lparr>session_id = ''s1'', User_message = ''And the conclusion?'',
                        pdf_path = JStr ''/tmp/abc123.pdf''\<rparr>,
            closure_messageType = None\<rparr>) =
     pdfPath ((initial_state ''s1'')\<lparr>message := ''What is the summary?'',
          pdfPath := JStr ''/tmp/abc123.pdf'', messageType := Some Pdf\<rparr>)"
    by blast
  with h0 r f show ?thesis by blast
qed

text \<open>
  C10: with an attachment reference set and a text that is blank after trimming, a send
  is not a no-op: it appends a user message whose content is the text as typed and
  issues a chat request whose \<^verbatim>\<open>User_message\<close> is that same untrimmed string.
\<close>

theorem attachment_with_blank_text_is_sent:
  assumes "truthy (pdfPath s)" and "trim (message s) = []"
  shows "sendMessage_begin t s =
           (s\<lparr>isLoading := True,
              messages := messages s @
                [\<lparr>msg_id = toString (date_now t), msg_type = User, content = JStr (message s),
                  timestamp = new_date t, source = messageType s\<rparr>],
              message := [],
              messageType := None\<rparr>,
            Some \<lparr>payload = \<lparr>session_id = sessionId s, User_message = message s,
                              pdf_path = pdfPath s\<rparr>,
                  closure_messageType = messageType s\<rparr>) \<and>
         sendMessage_begin t s \<noteq> (s, None)"
  using assms by (simp add: sendMessage_begin_def)

theorem attachment_with_blank_text_is_sent_witness:
  "truthy (pdfPath ((initial_state ''s1'')\<lparr>message := ''   '', pdfPath := JStr ''/tmp/abc123.pdf''\<rparr>)) \<and>
   trim (message ((initial_state ''s1'')\<lparr>message := ''   '', pdfPath := JStr ''/tmp/abc123.pdf''\<rparr>)) = [] \<and>
   sendMessage_begin \<lparr>date_now = 1700000000000, new_date = 1700000000000\<rparr>
       ((initial_state ''s1'')\<lparr>message := ''   '', pdfPath := JStr ''/tmp/abc123.pdf''\<rparr>) =
     (\<lparr>message = [], isLoading = True,
       messages =
         [\<lparr>msg_id = toString 1700000000000, msg_type = User, content = JStr ''   '',
           timestamp = 1700000000000, source = None\<rparr>],
       selectedFile = None, pdfPath = JStr ''/tmp/abc123.pdf'', messageType = None,
       sessionId = ''s1'', toasts = []\<rparr>,
      Some \<lparr>payload = \<lparr>session_id = ''s1'', User_message = ''   '',
                        pdf_path = JStr ''/tmp/abc123.pdf''\<rparr>,
            closure_messageType = None\<rparr>)"
proof -
  have h1: "truthy (pdfPath ((initial_state ''s1'')\<lparr>message := ''   '', pdfPath := JStr ''/tmp/abc123.pdf''\<rparr>))"
    by simp
  have h2: "trim (message ((initial_state ''s1'')\<lparr>message := ''   '', pdfPath := JStr ''/tmp/abc123.pdf''\<rparr>)) = []"
    by (simp add: trim_spaces)
  from attachment_with_blank_text_is_sent [OF h1 h2,
      of "\<lparr>date_now = 1700000000000, new_date = 1700000000000\<rparr>"] h1 h2
  show ?thesis by (simp add: initial_state_def)
qed

text \<open>
  C1: a chat request that fails should give an error notice and no assistant message.
  \<^verbatim>\<open>sendMessage\<close> does so when \<^verbatim>\<open>fetch\<close> rejects (\<open>sendMessage_network_error\<close>), but it never
  looks at \<^verbatim>\<open>res.ok\<close>, as \<^verbatim>\<open>uploadPDF\<close> does: on an HTTP 500 whose body is JSON it appends
  an assistant message with the placeholder text and raises no notice, so the store
  grows by two.
\<close>

theorem http_500_reply_is_appended_as_answer:
  "\<not> res_ok \<lparr>status = 500, json_body = Some (JObj [(''detail'', JStr ''Internal Server Error'')])\<rparr> \<and>
   sendMessage \<lparr>date_now = 1700000000000, new_date = 1700000000000\<rparr>
       (Response \<lparr>status = 500,
                  json_body = Some (JObj [(''detail'', JStr ''Internal Server Error'')])\<rparr>)
       \<lparr>date_now = 1700000000850, new_date = 1700000000850\<rparr>
       ((initial_state ''s1'')\<lparr>message := ''hello''\<rparr>) =
     Inr \<lparr>message = [], isLoading = False,
          messages =
            [\<lparr>msg_id = toString 1700000000000, msg_type = User, content = JStr ''hello'',
              timestamp = 1700000000000, source = None\<rparr>,
             \<lparr>msg_id = toString 1700000000851, msg_type = Assistant,
              content = JStr ''No response received.'',
              timestamp = 1700000000850, source = None\<rparr>],
          selectedFile = None, pdfPath = JNull, messageType = None, sessionId = ''s1'',
          toasts = []\<rparr>"
  by (simp add: res_ok_def sendMessage_def sendMessage_begin_def sendMessage_resume_def trim_hello
      initial_state_def js_or_def)

section \<open>Claims about the attachment upload\<close>

lemma upload_success_sets_pdfPath:
  assumes "file_type f = ''application/pdf''" and "res_ok r"
    and "json_body r = Some (JObj fs)" and "map_of (rev fs) ''pdf_path'' = Some p"
  shows "handleFileUpload (Some f) (Response r) s =
           s\<lparr>selectedFile := Some f, messageType := Some Pdf, pdfPath := p,
             toasts := toasts s @
               [\<lparr>title = ''PDF uploaded'',
                 description = Some (file_name f @ '' uploaded & ready.''),
                 variant = None\<rparr>]\<rparr>"
  using assms
  by (simp add: handleFileUpload_begin_def handleFileUpload_def handleFileUpload_resume_def
      uploadPDF_def toast_def)

text \<open>
  C6: selecting a file whose media type is not \<^verbatim>\<open>application/pdf\<close> posts nothing to the
  upload endpoint and changes nothing in the state but the list of notices, which gets
  the invalid-type notice; the attachment reference is as it was.
\<close>

theorem non_pdf_selection_only_notifies:
  assumes "file_type f \<noteq> ''application/pdf''"
  shows "handleFileUpload_begin (Some f) s =
           (s\<lparr>toasts := toasts s @
                [\<lparr>title = ''Invalid file type'', description = Some ''Please upload a PDF file'',
                  variant = Some ''destructive''\<rparr>]\<rparr>, None) \<and>
         handleFileUpload (Some f) res s =
           s\<lparr>toasts := toasts s @
                [\<lparr>title = ''Invalid file type'', description = Some ''Please upload a PDF file'',
                  variant = Some ''destructive''\<rparr>]\<rparr> \<and>
         pdfPath (handleFileUpload (Some f) res s) = pdfPath s"
  using assms by (simp add: handleFileUpload_begin_def handleFileUpload_def toast_def)

theorem non_pdf_selection_only_notifies_witness:
  "file_type \<lparr>file_name = ''photo.png'', file_type = ''image/png''\<rparr> \<noteq> ''application/pdf'' \<and>
   handleFileUpload_begin (Some \<lparr>file_name = ''photo.png'', file_type = ''image/png''\<rparr>)
       (initial_state ''s1'') =
     (\<lparr>message = [], isLoading = False, messages = [], selectedFile = None,
       pdfPath = JNull, messageType = None, sessionId = ''s1'',
       toasts = [\<lparr>title = ''Invalid file type'',
                  description = Some ''Please upload a PDF file'',
                  variant = Some ''destructive''\<rparr>]\<rparr>, None)"
proof -
  have h: "file_type \<lparr>file_name = ''photo.png'', file_type = ''image/png''\<rparr> \<noteq> ''application/pdf''"
    by simp
  from non_pdf_selection_only_notifies [OF h, of "initial_state ''s1''"] h
  show ?thesis by (simp add: initial_state_def)
qed

text \<open>
  C7, as the code has it: when the upload of a PDF gets a non-2xx response, the
  attachment reference ends up \<^verbatim>\<open>null\<close> and the upload-error notice is raised; the
  selected file is not cleared, it stays the file that was selected, and the response
  mode stays \<^verbatim>\<open>pdf\<close>.
\<close>

theorem failed_upload_keeps_selected_file:
  assumes "file_type f = ''application/pdf''" and "\<not> res_ok r"
  shows "handleFileUpload (Some f) (Response r) s =
           s\<lparr>selectedFile := Some f, messageType := Some Pdf,
             toasts := toasts s @
               [\<lparr>title = ''PDF upload failed'', description = None,
                 variant = Some ''destructive''\<rparr>],
             pdfPath := JNull\<rparr>"
  using assms
  by (simp add: handleFileUpload_begin_def handleFileUpload_def handleFileUpload_resume_def
      uploadPDF_def toast_def)

theorem failed_upload_keeps_selected_file_witness:
  "file_type \<lparr>file_name = ''notes.pdf'', file_type = ''application/pdf''\<rparr> = ''application/pdf'' \<and>
   \<not> res_ok \<lparr>status = 500, json_body = None\<rparr> \<and>
   handleFileUpload (Some \<lparr>file_name = ''notes.pdf'', file_type = ''application/pdf''\<rparr>)
       (Response \<lparr>status = 500, json_body = None\<rparr>) (initial_state ''s1'') =
     \<lparr>message = [], isLoading = False, messages = [],
      selectedFile = Some \<lparr>file_name = ''notes.pdf'', file_type = ''application/pdf''\<rparr>,
      pdfPath = JNull, messageType = Some Pdf, sessionId = ''s1'',
      toasts = [\<lparr>title = ''PDF upload failed'', description = None,
                 variant = Some ''destructive''\<rparr>]\<rparr>"
proof -
  have h1: "file_type \<lparr>file_name = ''notes.pdf'', file_type = ''application/pdf''\<rparr> = ''application/pdf''"
    by simp
  have h2: "\<not> res_ok \<lparr>status = 500, json_body = None\<rparr>"
    by (simp add: res_ok_def)
  from failed_upload_keeps_selected_file [OF h1 h2, of "initial_state ''s1''"] h1 h2
  show ?thesis by (simp add: initial_state_def)
qed

text \<open>
  C7 as stated fails: after an HTTP 500 on the upload of \<^verbatim>\<open>notes.pdf\<close> the selected file
  is still \<^verbatim>\<open>notes.pdf\<close>.
\<close>

theorem failed_upload_clears_selected_file_counterexample:
  "selectedFile
     (handleFileUpload (Some \<lparr>file_name = ''notes.pdf'', file_type = ''application/pdf''\<rparr>)
        (Response \<lparr>status = 500,
                   json_body = Some (JObj [(''detail'', JStr ''Internal Server Error'')])\<rparr>)
        (initial_state ''s1'')) =
     Some \<lparr>file_name = ''notes.pdf'', file_type = ''application/pdf''\<rparr> \<and>
   selectedFile
     (handleFileUpload (Some \<lparr>file_name = ''notes.pdf'', file_type = ''application/pdf''\<rparr>)
        (Response \<lparr>status = 500,
                   json_body = Some (JObj [(''detail'', JStr ''Internal Server Error'')])\<rparr>)
        (initial_state ''s1'')) \<noteq> None"
  by (simp add: handleFileUpload_def handleFileUpload_begin_def handleFileUpload_resume_def
      uploadPDF_def res_ok_def toast_def initial_state_def)

section \<open>Claims about message ids\<close>

lemma step_msg_ids:
  assumes "step e s = Inr s'"
  shows "map msg_id (messages s') = map msg_id (messages s) @ map toString (id_number e s)"
proof (cases e)
  case (Send t)
  with assms show ?thesis
    by (auto simp: sendMessage_begin_def)
next
  case (ChatSettled t c res)
  with assms show ?thesis
    by (cases res)
      (auto simp: sendMessage_resume_def sendMessage_catch_def toast_def
        split: option.splits sum.splits)
next
  case (FileSelected fo)
  with assms show ?thesis
    by (auto simp: handleFileUpload_begin_def toast_def split: option.splits)
next
  case (UploadSettled f res)
  with assms show ?thesis
    by (auto simp: handleFileUpload_resume_def toast_def split: sum.splits)
next
  case (Suggestion m)
  with assms show ?thesis
    by (auto simp: handleSuggestion_def)
qed (use assms in auto)

lemma run_msg_ids:
  "run evs s = Inr s' \<Longrightarrow>
     map msg_id (messages s') = map msg_id (messages s) @ map toString (id_numbers evs s)"
proof (induction evs arbitrary: s)
  case Nil
  then show ?case by simp
next
  case (Cons e evs)
  from Cons.prems obtain s1 where s1: "step e s = Inr s1" and r: "run evs s1 = Inr s'"
    by (auto split: sum.splits)
  from Cons.IH [OF r] step_msg_ids [OF s1] s1 show ?case by simp
qed

lemma distinct_map_toString: "distinct (map toString ns) \<longleftrightarrow> distinct ns"
  by (simp add: distinct_map inj_on_def toString_eq_iff)

text \<open>
  Where the ids come from: the ids of the messages of a session are the decimal
  renderings of clock readings, \<^verbatim>\<open>Date.now()\<close> at the send for a user message and
  \<^verbatim>\<open>Date.now() + 1\<close> at the reply for an assistant message. Nothing else enters an id,
  so two messages get the same id as soon as two of these numbers coincide.
\<close>

lemma msg_ids_are_clock_numbers:
  assumes "run evs (initial_state sid) = Inr s'"
  shows "map msg_id (messages s') = map toString (id_numbers evs (initial_state sid)) \<and>
         (distinct (map msg_id (messages s')) \<longleftrightarrow>
            distinct (id_numbers evs (initial_state sid)))"
proof -
  from run_msg_ids [OF assms]
  have "map msg_id (messages s') = map toString (id_numbers evs (initial_state sid))"
    by (simp add: initial_state_def)
  then show ?thesis by (simp add: distinct_map_toString)
qed

text \<open>
  C9: every message of the conversation store should have an id of its own; the list
  is rendered with \<^verbatim>\<open>key={msg.id}\<close> (line 189), and the \<^verbatim>\<open>+ 1\<close> of line 122 is there to keep
  the assistant's id apart from the user's. It does not: in the session below a reply
  handled at clock reading 1700000001499 gets the id 1700000001500, and so does the user
  message of the send made one millisecond later, so two different messages of the
  store share an id.
\<close>

theorem reply_and_next_send_share_message_id:
  "run [InputChange ''first'',
        Send \<lparr>date_now = 1700000000000, new_date = 1700000000000\<rparr>,
        InputChange ''second'',
        ChatSettled \<lparr>date_now = 1700000001499, new_date = 1700000001499\<rparr>
          \<lparr>payload = \<lparr>session_id = ''s1'', User_message = ''first'', pdf_path = JNull\<rparr>,
           closure_messageType = None\<rparr>
          (Response \<lparr>status = 200, json_body = Some (JObj [(''reply'', JStr ''Hi there'')])\<rparr>),
        Send \<lparr>date_now = 1700000001500, new_date = 1700000001500\<rparr>]
       (initial_state ''s1'') =
     Inr \<lparr>message = [], isLoading = True,
          messages =
            [\<lparr>msg_id = toString 1700000000000, msg_type = User, content = JStr ''first'',
              timestamp = 1700000000000, source = None\<rparr>,
             \<lparr>msg_id = toString 1700000001500, msg_type = Assistant, content = JStr ''Hi there'',
              timestamp = 1700000001499, source = None\<rparr>,
             \<lparr>msg_id = toString 1700000001500, msg_type = User, content = JStr ''second'',
              timestamp = 1700000001500, source = None\<rparr>],
          selectedFile = None, pdfPath = JNull, messageType = None, sessionId = ''s1'',
          toasts = []\<rparr> \<and>
   \<not> distinct [toString 1700000000000, toString 1700000001500, toString 1700000001500]"
  by (simp add: sendMessage_begin_def sendMessage_resume_def initial_state_def js_or_def
      trim_def is_white_space_def)

end
